theory Spec2Isabelle
  imports Complex_Main "HOL-Library.Char_ord" "HOL-Library.List_Lexorder"
begin

section \<open>Doctor preferences (services/aiModel.ts)\<close>

text \<open>
  The interface \<open>DoctorPreferences\<close> of \<open>services/aiModel.ts\<close>. The fields typed
  \<open>number\<close> hold whole numbers of patients, minutes, hours and days; they are modelled
  as \<open>int\<close>. The two shapes \<open>{start, end, enabled}\<close> and \<open>{start, end}\<close> get the
  field names \<open>day_start\<close>/\<open>day_end\<close> and \<open>break_start\<close>/\<open>break_end\<close>.
\<close>

record DaySchedule =
  day_start :: string
  day_end :: string
  enabled :: bool

record WorkingHours =
  monday :: DaySchedule
  tuesday :: DaySchedule
  wednesday :: DaySchedule
  thursday :: DaySchedule
  friday :: DaySchedule
  saturday :: DaySchedule
  sunday :: DaySchedule

record BreakTime =
  break_start :: string
  break_end :: string

record Constraints =
  maxPatientsPerDay :: int
  defaultConsultationDuration :: int
  emergencyConsultationDuration :: int
  breakTimes :: "BreakTime list"
  bufferBetweenAppointments :: int
  minNoticeForAppointment :: int
  maxAdvanceBooking :: int

record AiPreferences =
  prioritizeUrgentCases :: bool
  autoAcceptHighConfidenceSuggestions :: bool
  considerPatientHistory :: bool
  optimizeForMinimalWaitTime :: bool
  allowOverbooking :: bool
  notifyOnConflicts :: bool

datatype ExaminationTime = morning | afternoon | any_time

record SpecialtySettings =
  followUpInterval :: "int option"
  requiresLabResults :: "bool option"
  preferredExaminationTime :: "ExaminationTime option"

record DoctorPreferences =
  doctorId :: string
  workingHours :: WorkingHours
  constraints :: Constraints
  aiPreferences :: AiPreferences
  specialtySettings :: "SpecialtySettings option"

text \<open>\<open>Object.values(preferences.workingHours)\<close>: the seven days in declaration order.\<close>

definition workingHours_values :: "WorkingHours \<Rightarrow> DaySchedule list" where
  "workingHours_values wh =
     [monday wh, tuesday wh, wednesday wh, thursday wh, friday wh, saturday wh, sunday wh]"

text \<open>
  \<open>validateDoctorPreferences\<close>: four early returns of \<open>false\<close>, in the order of the
  source, then \<open>true\<close>. \<open>!preferences.doctorId\<close> holds exactly for the empty string.
\<close>

definition validateDoctorPreferences :: "DoctorPreferences \<Rightarrow> bool" where
  "validateDoctorPreferences preferences =
     (if doctorId preferences = [] then False
      else let hasWorkingDay = list_ex enabled (workingHours_values (workingHours preferences))
      in if \<not> hasWorkingDay then False
      else if maxPatientsPerDay (constraints preferences) < 1 then False
      else if defaultConsultationDuration (constraints preferences) < 5 then False
      else True)"

definition getDefaultDoctorPreferences :: "string \<Rightarrow> DoctorPreferences" where
  "getDefaultDoctorPreferences doctorId' =
     \<lparr> doctorId = doctorId',
       workingHours = \<lparr>
         monday = \<lparr> day_start = ''09:00'', day_end = ''17:00'', enabled = True \<rparr>,
         tuesday = \<lparr> day_start = ''09:00'', day_end = ''17:00'', enabled = True \<rparr>,
         wednesday = \<lparr> day_start = ''09:00'', day_end = ''17:00'', enabled = True \<rparr>,
         thursday = \<lparr> day_start = ''09:00'', day_end = ''17:00'', enabled = True \<rparr>,
         friday = \<lparr> day_start = ''09:00'', day_end = ''17:00'', enabled = True \<rparr>,
         saturday = \<lparr> day_start = ''09:00'', day_end = ''13:00'', enabled = False \<rparr>,
         sunday = \<lparr> day_start = ''09:00'', day_end = ''13:00'', enabled = False \<rparr> \<rparr>,
       constraints = \<lparr>
         maxPatientsPerDay = 20,
         defaultConsultationDuration = 30,
         emergencyConsultationDuration = 45,
         breakTimes = [\<lparr> break_start = ''12:00'', break_end = ''13:00'' \<rparr>],
         bufferBetweenAppointments = 5,
         minNoticeForAppointment = 2,
         maxAdvanceBooking = 90 \<rparr>,
       aiPreferences = \<lparr>
         prioritizeUrgentCases = True,
         autoAcceptHighConfidenceSuggestions = False,
         considerPatientHistory = True,
         optimizeForMinimalWaitTime = True,
         allowOverbooking = False,
         notifyOnConflicts = True \<rparr>,
       specialtySettings = None \<rparr>"

section \<open>Core types (types/index.ts)\<close>

text \<open>
  The string-literal union types become datatypes. Several interfaces share field names
  (\<open>id\<close>, \<open>doctorId\<close>, \<open>patientId\<close>, \<open>priority\<close>, \<open>status\<close>, \<open>type\<close>); the
  clashing ones carry a prefix naming their interface.
\<close>

datatype Priority = emergency | urgent | normal
datatype AppointmentStatus = scheduled | completed | cancelled | no_show
datatype RiskLevel = risk_high | risk_medium | risk_low | risk_none
datatype ActionStatus = pending | accepted | rejected
datatype Gender = male | female | other
datatype ConflictType = overlap | overbook | double_booking | gap_too_small
datatype Severity = high | medium | low

record Patient =
  pt_id :: string
  name :: string
  age :: int
  gender :: Gender
  condition :: string
  conditionSummary :: string
  lastVisit :: string
  nextVisit :: "string option"
  riskLevel :: RiskLevel
  phone :: string
  email :: string
  bloodType :: "string option"
  allergies :: "string list option"
  medications :: "string list option"
  avatar :: "string option"

record Appointment =
  apt_id :: string
  patientId :: string
  patientName :: string
  apt_doctorId :: string
  date :: string
  startTime :: string
  endTime :: string
  priority :: Priority
  status :: AppointmentStatus
  apt_type :: string
  apt_notes :: "string option"
  location :: "string option"

record AIScheduleSuggestion =
  sg_id :: string
  sg_doctorId :: string
  sg_patientId :: string
  sg_patientName :: string
  suggestedDate :: string
  suggestedStartTime :: string
  suggestedEndTime :: string
  sg_priority :: Priority
  reason :: string
  confidence :: real
  sg_status :: ActionStatus
  conflicts :: "string list option"
  createdAt :: string

record ScheduleConflict =
  cf_id :: string
  cf_type :: ConflictType
  appointments :: "string list"
  description :: string
  suggestedResolution :: "string option"
  severity :: Severity

text \<open>The anonymous result type of \<open>getOptimalAppointmentTime\<close>.\<close>

record OptimalTime =
  opt_suggestedDate :: string
  opt_suggestedStartTime :: string
  opt_suggestedEndTime :: string
  opt_confidence :: real
  opt_reason :: string

section \<open>The remote calls of services/aiModel.ts\<close>

text \<open>
  Every AI function of \<open>services/aiModel.ts\<close> awaits one \<open>fetch\<close> to the service at
  \<open>AI_MODEL_BASE_URL\<close>. What the function reads from outside its arguments is made a
  parameter, the \<open>platform\<close>: the behaviour of \<open>fetch\<close> (a function of the request),
  the \<open>authToken\<close> item of \<open>localStorage\<close> and the clock behind
  \<open>new Date().toISOString()\<close>.

  \<open>fetch\<close> either rejects (network failure) or resolves to a response with its
  \<open>ok\<close> flag; \<open>response.json()\<close> either rejects (body is not JSON) or yields the
  value, which the TypeScript source returns at its declared result type without any
  runtime check. \<open>console.error\<close> only logs and is not modelled.
\<close>

datatype error = Error string | TypeError string | SyntaxError string

datatype 'r Response = Response (ok: bool) (json: "error + 'r")

datatype 'r fetch_outcome = Rejected error | Resolved "'r Response"

datatype request_body =
    GenerateSuggestionsBody DoctorPreferences "Appointment list" "Patient list" string
  | DetectConflictsBody string "Appointment list" DoctorPreferences
  | OptimalTimeBody string Priority DoctorPreferences "Appointment list"

record request =
  url :: string
  http_method :: string
  content_type :: string
  authorization :: string
  body :: request_body

record 'r platform =
  fetch :: "request \<Rightarrow> 'r fetch_outcome"
  localStorage_authToken :: "string option"
  now_toISOString :: string

definition AI_MODEL_BASE_URL :: string where
  "AI_MODEL_BASE_URL = ''http://localhost:8000/api/ai''"

text \<open>\<open>localStorage.getItem('authToken') || ''\<close>: a missing item and the empty string
  both give the empty string.\<close>

definition getAuthToken :: "'r platform \<Rightarrow> string" where
  "getAuthToken w = (case localStorage_authToken w of None \<Rightarrow> [] | Some t \<Rightarrow> t)"

definition generateSuggestions_request ::
  "'r platform \<Rightarrow> DoctorPreferences \<Rightarrow> Appointment list \<Rightarrow> Patient list \<Rightarrow> request" where
  "generateSuggestions_request w preferences currentAppointments pendingPatients =
     \<lparr> url = AI_MODEL_BASE_URL @ ''/generate-suggestions'',
       http_method = ''POST'',
       content_type = ''application/json'',
       authorization = ''Bearer '' @ getAuthToken w,
       body = GenerateSuggestionsBody preferences currentAppointments pendingPatients
                (now_toISOString w) \<rparr>"

text \<open>The \<open>try\<close> block of \<open>generateAIScheduleSuggestions\<close>: \<open>Inl\<close> is a throw.\<close>

definition generateAIScheduleSuggestions_try ::
  "AIScheduleSuggestion list platform \<Rightarrow> DoctorPreferences \<Rightarrow> Appointment list \<Rightarrow>
   Patient list \<Rightarrow> error + AIScheduleSuggestion list" where
  "generateAIScheduleSuggestions_try w preferences currentAppointments pendingPatients =
     (case fetch w (generateSuggestions_request w preferences currentAppointments pendingPatients) of
        Rejected e \<Rightarrow> Inl e
      | Resolved response \<Rightarrow>
          if \<not> ok response then Inl (Error ''AI model request failed'')
          else json response)"

text \<open>The \<open>catch\<close> block returns the empty array: the function never throws.\<close>

definition generateAIScheduleSuggestions ::
  "AIScheduleSuggestion list platform \<Rightarrow> DoctorPreferences \<Rightarrow> Appointment list \<Rightarrow>
   Patient list \<Rightarrow> AIScheduleSuggestion list" where
  "generateAIScheduleSuggestions w preferences currentAppointments pendingPatients =
     (case generateAIScheduleSuggestions_try w preferences currentAppointments pendingPatients of
        Inl error \<Rightarrow> []
      | Inr suggestions \<Rightarrow> suggestions)"

definition detectConflicts_request ::
  "'r platform \<Rightarrow> string \<Rightarrow> Appointment list \<Rightarrow> DoctorPreferences \<Rightarrow> request" where
  "detectConflicts_request w doctorId' appointments' preferences =
     \<lparr> url = AI_MODEL_BASE_URL @ ''/detect-conflicts'',
       http_method = ''POST'',
       content_type = ''application/json'',
       authorization = ''Bearer '' @ getAuthToken w,
       body = DetectConflictsBody doctorId' appointments' preferences \<rparr>"

definition detectScheduleConflicts_try ::
  "ScheduleConflict list platform \<Rightarrow> string \<Rightarrow> Appointment list \<Rightarrow> DoctorPreferences \<Rightarrow>
   error + ScheduleConflict list" where
  "detectScheduleConflicts_try w doctorId' appointments' preferences =
     (case fetch w (detectConflicts_request w doctorId' appointments' preferences) of
        Rejected e \<Rightarrow> Inl e
      | Resolved response \<Rightarrow>
          if \<not> ok response then Inl (Error ''Conflict detection failed'')
          else json response)"

definition detectScheduleConflicts ::
  "ScheduleConflict list platform \<Rightarrow> string \<Rightarrow> Appointment list \<Rightarrow> DoctorPreferences \<Rightarrow>
   ScheduleConflict list" where
  "detectScheduleConflicts w doctorId' appointments' preferences =
     (case detectScheduleConflicts_try w doctorId' appointments' preferences of
        Inl error \<Rightarrow> []
      | Inr cs \<Rightarrow> cs)"

definition optimalTime_request ::
  "'r platform \<Rightarrow> string \<Rightarrow> Priority \<Rightarrow> DoctorPreferences \<Rightarrow> Appointment list \<Rightarrow> request" where
  "optimalTime_request w patientId' priority' preferences currentSchedule =
     \<lparr> url = AI_MODEL_BASE_URL @ ''/optimal-time'',
       http_method = ''POST'',
       content_type = ''application/json'',
       authorization = ''Bearer '' @ getAuthToken w,
       body = OptimalTimeBody patientId' priority' preferences currentSchedule \<rparr>"

text \<open>\<open>getOptimalAppointmentTime\<close> rethrows in its \<open>catch\<close> block (\<open>throw error\<close>), so
  the result of the function is the result of its \<open>try\<close> block.\<close>

definition getOptimalAppointmentTime ::
  "OptimalTime platform \<Rightarrow> string \<Rightarrow> Priority \<Rightarrow> DoctorPreferences \<Rightarrow> Appointment list \<Rightarrow>
   error + OptimalTime" where
  "getOptimalAppointmentTime w patientId' priority' preferences currentSchedule =
     (case (case fetch w (optimalTime_request w patientId' priority' preferences currentSchedule) of
              Rejected e \<Rightarrow> Inl e
            | Resolved response \<Rightarrow>
                if \<not> ok response then Inl (Error ''Optimal time calculation failed'')
                else json response) of
        Inl error \<Rightarrow> Inl error
      | Inr r \<Rightarrow> Inr r)"

section \<open>JavaScript strings and numbers used by the components\<close>

text \<open>
  A JavaScript number is a double. Every whole number from \<open>-2^53\<close> to \<open>2^53\<close> is a
  double, and a sum, difference or product of two of them is exact when it stays in that
  range. \<open>Num n\<close> is the double \<open>n\<close> of that range and \<open>NaN\<close> is \<open>NaN\<close>. Outside the
  range the code rounds (or reaches an infinity), and the model does not follow it:
  \<open>Inexact\<close> stands for any such double, and for whatever is computed from one.
\<close>

datatype number = NaN | Num int | Inexact

definition num :: "int \<Rightarrow> number" where
  "num n = (if \<bar>n\<bar> \<le> 2 ^ 53 then Num n else Inexact)"

text \<open>The operators \<open>+\<close>, \<open>-\<close> and \<open>*\<close>: \<open>NaN\<close> if an operand is \<open>NaN\<close>, the exact result
  if both operands and the result are in range.\<close>

definition lift2 :: "(int \<Rightarrow> int \<Rightarrow> int) \<Rightarrow> number \<Rightarrow> number \<Rightarrow> number" where
  "lift2 f a b =
     (if a = NaN \<or> b = NaN then NaN
      else case a of
             Num x \<Rightarrow> (case b of Num y \<Rightarrow> num (f x y) | _ \<Rightarrow> Inexact)
           | _ \<Rightarrow> Inexact)"

text \<open>\<open>String.prototype.split\<close> with a one-character separator: the pieces between the
  separators, at least one piece.\<close>

fun split :: "char \<Rightarrow> string \<Rightarrow> string list" where
  "split sep [] = [[]]"
| "split sep (c # cs) =
     (if c = sep then [] # split sep cs
      else (case split sep cs of [] \<Rightarrow> [[c]] | p # ps \<Rightarrow> (c # p) # ps))"

text \<open>
  \<open>parseInt(string)\<close> without a radix, as ECMAScript defines it: leading white space is
  dropped, then an optional sign, then an optional \<open>0x\<close>/\<open>0X\<close> that selects radix 16;
  the longest prefix of digits of the radix is the value, and no digit at all gives
  \<open>NaN\<close>; a value out of the exact range is rounded by the code and \<open>Inexact\<close> here.
  \<open>digitVal\<close> gives 36 to a character that is no digit of any radix.
  A \<open>char\<close> is a code unit below 256; the white space characters in that range are
  tab, line feed, vertical tab, form feed, carriage return, space and no-break space.
\<close>

definition isStrWhiteSpaceChar :: "char \<Rightarrow> bool" where
  "isStrWhiteSpaceChar c = ((of_char c :: nat) \<in> set [9, 10, 11, 12, 13, 32, 160])"

definition digitVal :: "char \<Rightarrow> nat" where
  "digitVal c =
     (let n = (of_char c :: nat)
      in if 48 \<le> n \<and> n \<le> 57 then n - 48
         else if 97 \<le> n \<and> n \<le> 122 then n - 87
         else if 65 \<le> n \<and> n \<le> 90 then n - 55
         else 36)"

definition parseInt :: "string \<Rightarrow> number" where
  "parseInt inputString =
     (let S = dropWhile isStrWhiteSpaceChar inputString;
          sign = (if S \<noteq> [] \<and> hd S = CHR ''-'' then - 1 else (1::int));
          S1 = (if S \<noteq> [] \<and> (hd S = CHR ''+'' \<or> hd S = CHR ''-'') then tl S else S);
          hex = (2 \<le> length S1 \<and> S1 ! 0 = CHR ''0'' \<and> (S1 ! 1 = CHR ''x'' \<or> S1 ! 1 = CHR ''X''));
          R = (if hex then 16 else (10::nat));
          S2 = (if hex then drop 2 S1 else S1);
          Z = takeWhile (\<lambda>c. digitVal c < R) S2
      in if Z = [] then NaN
         else num (sign * foldl (\<lambda>acc c. acc * int R + int (digitVal c)) 0 Z))"

text \<open>\<open>parseInt(parts[i])\<close>: an index past the end reads \<open>undefined\<close>, which
  \<open>parseInt\<close> converts to the string \<open>undefined\<close>.\<close>

definition parseInt_at :: "string list \<Rightarrow> nat \<Rightarrow> number" where
  "parseInt_at parts i = (if i < length parts then parseInt (parts ! i) else parseInt ''undefined'')"

text \<open>\<open>Number.prototype.toString\<close> on a whole number of the exact range (decimal digits,
  a minus sign for a negative one) and on \<open>NaN\<close>; \<open>None\<close> on \<open>Inexact\<close>, whose digits
  the model does not know.\<close>

function digits :: "int \<Rightarrow> string" where
  "digits n = (if n < 10 then [char_of (48 + nat n)]
               else digits (n div 10) @ [char_of (48 + nat (n mod 10))])"
  by pat_completeness auto
termination
  by (relation "measure nat") auto

declare digits.simps [simp del]

definition toString_int :: "int \<Rightarrow> string" where
  "toString_int n = (if n < 0 then CHR ''-'' # digits (- n) else digits n)"

definition toString :: "number \<Rightarrow> string option" where
  "toString x = (case x of NaN \<Rightarrow> Some ''NaN'' | Num n \<Rightarrow> Some (toString_int n) | Inexact \<Rightarrow> None)"

definition padStart :: "nat \<Rightarrow> char \<Rightarrow> string \<Rightarrow> string" where
  "padStart targetLength c s = replicate (targetLength - length s) c @ s"

text \<open>\<open>Math.floor(x / 60)\<close> and \<open>x % 60\<close>. In the exact range the quotient of the
  doubles is rounded by at most \<open>1/64\<close>, and the true quotient is a whole number or at
  least \<open>1/60\<close> away from one: the floor of the rounded quotient is the floor of the true
  one. The remainder of JavaScript is exact and takes the sign of the dividend.\<close>

definition floor_div_60 :: "number \<Rightarrow> number" where
  "floor_div_60 x = (case x of NaN \<Rightarrow> NaN | Num n \<Rightarrow> Num (n div 60) | Inexact \<Rightarrow> Inexact)"

definition js_rem_60 :: "number \<Rightarrow> number" where
  "js_rem_60 x =
     (case x of NaN \<Rightarrow> NaN | Num n \<Rightarrow> Num (sgn n * (\<bar>n\<bar> mod 60)) | Inexact \<Rightarrow> Inexact)"

section \<open>Rescheduling by drag and drop (handleAppointmentDrop, App.tsx)\<close>

text \<open>
  The source writes \<open>parseInt(p[0]) * 60 + parseInt(p[1])\<close> over \<open>p = s.split(':')\<close>
  three times (start, end, new start); \<open>hhmm_minutes\<close> is that expression.
\<close>

definition hhmm_minutes :: "string \<Rightarrow> number" where
  "hhmm_minutes s =
     (let parts = split CHR '':'' s
      in lift2 (+) (lift2 (*) (parseInt_at parts 0) (Num 60)) (parseInt_at parts 1))"

definition duration_minutes :: "Appointment \<Rightarrow> number" where
  "duration_minutes appointment =
     lift2 (-) (hhmm_minutes (endTime appointment)) (hhmm_minutes (startTime appointment))"

text \<open>The template string of \<open>newEndTime\<close>; \<open>None\<close> when \<open>newEndMinutes\<close> is out of the
  exact range.\<close>

definition newEndTime_of :: "number \<Rightarrow> string option" where
  "newEndTime_of newEndMinutes =
     (case toString (floor_div_60 newEndMinutes) of
        None \<Rightarrow> None
      | Some hours \<Rightarrow>
          (case toString (js_rem_60 newEndMinutes) of
             None \<Rightarrow> None
           | Some minutes \<Rightarrow> Some (padStart 2 CHR ''0'' hours @ '':'' @ padStart 2 CHR ''0'' minutes)))"

text \<open>
  The state is the appointment list of the component: \<open>find\<close> reads the list the
  handler was rendered with and \<open>setAppointments\<close> maps over the current one, which is
  the same list when no other update comes in between. An unknown id returns at once
  and leaves the list as it is. The backend call that follows the update does not touch
  the list, and its failure keeps the update. The result is \<open>Some\<close> of the new list, and
  \<open>None\<close> where the minutes leave the exact range of the number model, so that the model
  does not know the end time the code writes.
\<close>

definition handleAppointmentDrop ::
  "Appointment list \<Rightarrow> string \<Rightarrow> string \<Rightarrow> string \<Rightarrow> Appointment list option" where
  "handleAppointmentDrop appointments' appointmentId newDate newStartTime =
     (case List.find (\<lambda>apt. apt_id apt = appointmentId) appointments' of
        None \<Rightarrow> Some appointments'
      | Some appointment \<Rightarrow>
          let duration = duration_minutes appointment;
              newEndMinutes = lift2 (+) (hhmm_minutes newStartTime) duration
          in (case newEndTime_of newEndMinutes of
                None \<Rightarrow> None
              | Some newEndTime \<Rightarrow>
                  Some (map (\<lambda>apt. if apt_id apt = appointmentId
                                   then apt\<lparr> date := newDate, startTime := newStartTime,
                                             endTime := newEndTime \<rparr>
                                   else apt) appointments')))"

section \<open>The day view of the calendar (components/CalendarView.tsx)\<close>

text \<open>
  \<open>dateStr\<close> is \<open>currentDate.toISOString().split('T')[0]\<close>. The comparisons
  \<open>apt.startTime <= time\<close> and \<open>apt.endTime > time\<close> compare strings, code unit by code
  unit; that is the lexicographic order on \<open>string\<close>.
\<close>

definition filterAppointmentsByDate :: "Appointment list \<Rightarrow> string \<Rightarrow> Appointment list" where
  "filterAppointmentsByDate appointments' dateStr = filter (\<lambda>apt. date apt = dateStr) appointments'"

definition timeSlots :: "string list" where
  "timeSlots = map (\<lambda>i. let hour = int i + 8 in padStart 2 CHR ''0'' (toString_int hour) @ '':00'') [0..<12]"

definition aptsAtTime :: "Appointment list \<Rightarrow> string \<Rightarrow> Appointment list" where
  "aptsAtTime todayAppointments time =
     filter (\<lambda>apt. startTime apt \<le> time \<and> endTime apt > time) todayAppointments"

text \<open>The rendered day: one row per slot label, holding the appointments drawn in it.\<close>

definition renderDayView :: "Appointment list \<Rightarrow> string \<Rightarrow> (string \<times> Appointment list) list" where
  "renderDayView appointments' dateStr =
     (let todayAppointments = filterAppointmentsByDate appointments' dateStr
      in map (\<lambda>time. (time, aptsAtTime todayAppointments time)) timeSlots)"

section \<open>The conflict trigger of the database schema document\<close>

text \<open>
  The only conflict detection the repository computes itself is the trigger function
  \<open>detect_schedule_conflicts\<close> of \<^verbatim>\<open>docs/DATABASE_SCHEMA.md\<close>, run for each inserted or updated row \<open>NEW\<close> of the table
  \<open>appointments\<close>. A \<open>TIME\<close> value is modelled as minutes since midnight; the trigger
  only compares times. A row carries the columns the trigger reads; \<open>priority\<close> and
  \<open>status\<close> may be \<open>NULL\<close>.
\<close>

record TimeWindow =
  start_time :: nat
  end_time :: nat


text \<open>The time condition of the \<open>WHERE\<close> clause:
  \<open>start_time < NEW.end_time AND end_time > NEW.start_time\<close>.\<close>

definition overlaps :: "'a TimeWindow_scheme \<Rightarrow> 'b TimeWindow_scheme \<Rightarrow> bool" where
  "overlaps r NEW = (start_time r < end_time NEW \<and> end_time r > start_time NEW)"



section \<open>Sample data\<close>

text \<open>Concrete appointments, preferences, table rows and service behaviours, used to
  evaluate the functions above.\<close>

definition ap1 :: Appointment where
  "ap1 = \<lparr> apt_id = ''a1'', patientId = ''p1'', patientName = ''Sarah Johnson'', apt_doctorId = ''d1'',
           date = ''2025-01-06'', startTime = ''09:00'', endTime = ''09:30'', priority = urgent,
           status = scheduled, apt_type = ''Consultation'', apt_notes = None, location = None \<rparr>"

definition ap2 :: Appointment where
  "ap2 = \<lparr> apt_id = ''a2'', patientId = ''p2'', patientName = ''Michael Chen'', apt_doctorId = ''d1'',
           date = ''2025-01-06'', startTime = ''09:15'', endTime = ''09:45'', priority = normal,
           status = scheduled, apt_type = ''Follow-up'', apt_notes = None, location = None \<rparr>"

text \<open>A second appointment carrying the id of \<open>ap1\<close>.\<close>

definition ap1_twin :: Appointment where
  "ap1_twin = \<lparr> apt_id = ''a1'', patientId = ''p2'', patientName = ''Michael Chen'', apt_doctorId = ''d1'',
           date = ''2025-01-06'', startTime = ''10:00'', endTime = ''11:00'', priority = normal,
           status = scheduled, apt_type = ''Follow-up'', apt_notes = None, location = None \<rparr>"

text \<open>An appointment that runs over midnight: its end time is before its start time.\<close>

definition overnight :: Appointment where
  "overnight = \<lparr> apt_id = ''a3'', patientId = ''p3'', patientName = ''Emma Davis'', apt_doctorId = ''d1'',
           date = ''2025-01-06'', startTime = ''23:00'', endTime = ''01:00'', priority = emergency,
           status = scheduled, apt_type = ''Emergency'', apt_notes = None, location = None \<rparr>"

definition malformed :: Appointment where
  "malformed = \<lparr> apt_id = ''a9'', patientId = ''p9'', patientName = ''James Wilson'', apt_doctorId = ''d1'',
           date = ''2025-01-06'', startTime = ''11:00'', endTime = ''10:00'', priority = normal,
           status = scheduled, apt_type = ''Consultation'', apt_notes = None, location = None \<rparr>"

definition booked :: Appointment where
  "booked = \<lparr> apt_id = ''a5'', patientId = ''p5'', patientName = ''Lisa Anderson'', apt_doctorId = ''d1'',
           date = ''2025-01-06'', startTime = ''09:00'', endTime = ''10:00'', priority = normal,
           status = scheduled, apt_type = ''Consultation'', apt_notes = None, location = None \<rparr>"

definition early :: Appointment where
  "early = \<lparr> apt_id = ''a0'', patientId = ''p6'', patientName = ''David Brown'', apt_doctorId = ''d1'',
           date = ''2025-01-06'', startTime = ''08:00'', endTime = ''09:00'', priority = normal,
           status = scheduled, apt_type = ''Consultation'', apt_notes = None, location = None \<rparr>"

definition zero_capacity_preferences :: DoctorPreferences where
  "zero_capacity_preferences =
     (getDefaultDoctorPreferences ''d1'')
       \<lparr> constraints := (constraints (getDefaultDoctorPreferences ''d1'')) \<lparr> maxPatientsPerDay := 0 \<rparr> \<rparr>"

definition day_off :: DaySchedule where
  "day_off = \<lparr> day_start = ''09:00'', day_end = ''17:00'', enabled = False \<rparr>"

text \<open>
  Preferences whose only working window is Monday 09:00 to 10:00, with bookings at most
  one day ahead. On Monday 2025-01-06 the appointment \<open>booked\<close> fills that window, and
  Tuesday is a day off: no slot is free in the horizon.
\<close>

definition single_slot_preferences :: DoctorPreferences where
  "single_slot_preferences =
     (getDefaultDoctorPreferences ''d1'')
       \<lparr> workingHours :=
           \<lparr> monday = \<lparr> day_start = ''09:00'', day_end = ''10:00'', enabled = True \<rparr>,
             tuesday = day_off, wednesday = day_off, thursday = day_off, friday = day_off,
             saturday = day_off, sunday = day_off \<rparr>,
         constraints := (constraints (getDefaultDoctorPreferences ''d1'')) \<lparr> maxAdvanceBooking := 1 \<rparr> \<rparr>"

definition sample_suggestion :: AIScheduleSuggestion where
  "sample_suggestion =
     \<lparr> sg_id = ''s1'', sg_doctorId = ''d1'', sg_patientId = ''p4'', sg_patientName = ''Robert Taylor'',
       suggestedDate = ''2025-01-06'', suggestedStartTime = ''09:00'', suggestedEndTime = ''09:30'',
       sg_priority = urgent, reason = ''Earliest slot within working hours'', confidence = 92 / 100,
       sg_status = pending, conflicts = Some [], createdAt = ''2025-01-06T06:00:00.000Z'' \<rparr>"

definition sample_conflict :: ScheduleConflict where
  "sample_conflict =
     \<lparr> cf_id = ''c1'', cf_type = overlap, appointments = [''a1'', ''a2''],
       description = ''Appointments overlap by 15 minutes'',
       suggestedResolution = Some ''Move the later appointment'', severity = high \<rparr>"

text \<open>A service that answers every request with status ok and the given JSON value; one
  that answers with an error status; and one that cannot be reached.\<close>

definition answering_service :: "'r \<Rightarrow> 'r platform" where
  "answering_service answer =
     \<lparr> fetch = (\<lambda>req. Resolved (Response True (Inr answer))),
       localStorage_authToken = Some ''token-1'',
       now_toISOString = ''2025-01-06T06:00:00.000Z'' \<rparr>"

definition rejecting_service :: "'r platform" where
  "rejecting_service =
     \<lparr> fetch = (\<lambda>req. Resolved (Response False (Inl (SyntaxError ''Unexpected end of JSON input'')))),
       localStorage_authToken = Some ''token-1'',
       now_toISOString = ''2025-01-06T06:00:00.000Z'' \<rparr>"

definition unreachable_service :: "'r platform" where
  "unreachable_service =
     \<lparr> fetch = (\<lambda>req. Rejected (TypeError ''Failed to fetch'')),
       localStorage_authToken = None,
       now_toISOString = ''2025-01-06T06:00:00.000Z'' \<rparr>"






section \<open>Time strings\<close>

text \<open>
  The interface \<open>Appointment\<close> documents \<open>startTime\<close> and \<open>endTime\<close> as
  \<open>HH:mm\<close>: two decimal digits, a colon, two decimal digits. \<open>decimal_value\<close> reads a
  digit string the way \<open>parseInt\<close> accumulates it.
\<close>

definition isDecimalDigit :: "char \<Rightarrow> bool" where
  "isDecimalDigit c = (48 \<le> (of_char c :: nat) \<and> (of_char c :: nat) \<le> 57)"

definition is_HHmm :: "string \<Rightarrow> bool" where
  "is_HHmm s = (length s = 5 \<and> isDecimalDigit (s ! 0) \<and> isDecimalDigit (s ! 1) \<and> s ! 2 = CHR '':''
                \<and> isDecimalDigit (s ! 3) \<and> isDecimalDigit (s ! 4))"

definition decimal_value :: "string \<Rightarrow> int" where
  "decimal_value ds = foldl (\<lambda>acc c. acc * 10 + int (digitVal c)) 0 ds"

section \<open>Auxiliary facts\<close>

subsection \<open>Splitting, parsing and printing time strings\<close>

lemma split_no_sep: "sep \<notin> set xs \<Longrightarrow> split sep xs = [xs]"
  by (induction xs) auto

lemma split_at_sep: "sep \<notin> set xs \<Longrightarrow> split sep (xs @ sep # ys) = xs # split sep ys"
  by (induction xs) auto

lemma isDecimalDigit_facts:
  assumes "isDecimalDigit c"
  shows "\<not> isStrWhiteSpaceChar c" "c \<noteq> CHR ''-''" "c \<noteq> CHR ''+''" "c \<noteq> CHR ''x''" "c \<noteq> CHR ''X''"
    "c \<noteq> CHR '':''" "digitVal c < 10" "digitVal c = of_char c - 48"
  using assms by (auto simp: isDecimalDigit_def isStrWhiteSpaceChar_def digitVal_def Let_def)

lemma parseInt_decimal:
  assumes "ds \<noteq> []" and "\<forall>c \<in> set ds. isDecimalDigit c"
  shows "parseInt ds = num (decimal_value ds)"
proof -
  obtain c cs where ds: "ds = c # cs" using assms(1) by (cases ds) auto
  have c: "isDecimalDigit c" using assms(2) ds by simp
  have drop: "dropWhile isStrWhiteSpaceChar ds = ds"
    using isDecimalDigit_facts(1)[OF c] ds by simp
  have nohex: "ds ! Suc 0 \<noteq> CHR ''x'' \<and> ds ! Suc 0 \<noteq> CHR ''X''" if "2 \<le> length ds"
  proof -
    from that have "ds ! Suc 0 \<in> set ds" by (simp add: nth_mem)
    then have "isDecimalDigit (ds ! Suc 0)" using assms(2) by blast
    then show ?thesis using isDecimalDigit_facts(4,5) by blast
  qed
  have tw: "takeWhile (\<lambda>c. digitVal c < 10) ds = ds"
    using assms(2) isDecimalDigit_facts(7) by (simp add: takeWhile_eq_all_conv)
  have hd: "hd ds \<noteq> CHR ''-''" "hd ds \<noteq> CHR ''+''"
    using isDecimalDigit_facts(2,3)[OF c] ds by simp_all
  show ?thesis
    unfolding parseInt_def Let_def drop
    using nohex by (auto simp: hd tw assms(1) decimal_value_def)
qed

lemma decimal_value_append: "decimal_value (xs @ [c]) = decimal_value xs * 10 + int (digitVal c)"
  by (simp add: decimal_value_def)

lemma digitVal_zero: "digitVal CHR ''0'' = 0"
  by (simp add: digitVal_def)

lemma decimal_value_zeros: "decimal_value (replicate k CHR ''0'' @ xs) = decimal_value xs"
  by (induction k) (simp_all add: decimal_value_def digitVal_zero)

lemma digit_char: "n < 10 \<Longrightarrow> isDecimalDigit (char_of (48 + n)) \<and> digitVal (char_of (48 + n)) = n"
  by (simp add: isDecimalDigit_def digitVal_def Let_def)

lemma digits_decimal:
  "0 \<le> n \<Longrightarrow> (\<forall>c \<in> set (digits n). isDecimalDigit c) \<and> digits n \<noteq> [] \<and> decimal_value (digits n) = n"
proof (induction n rule: digits.induct)
  case (1 n)
  show ?case
  proof (cases "n < 10")
    case True
    then have "nat n < 10" using "1.prems" by simp
    from digit_char[OF this] True "1.prems" show ?thesis
      by (subst (1 2 3) digits.simps) (simp add: decimal_value_def)
  next
    case False
    have m: "nat (n mod 10) < 10" by simp
    have q: "0 \<le> n div 10" using "1.prems" by simp
    from False "1.IH"[OF False q] digit_char[OF m] show ?thesis
      by (subst (1 2 3) digits.simps) (auto simp: decimal_value_append)
  qed
qed

lemma parseInt_padded:
  assumes "0 \<le> n"
  shows "parseInt (padStart 2 CHR ''0'' (digits n)) = num n"
proof -
  have z: "isDecimalDigit CHR ''0''" by (simp add: isDecimalDigit_def)
  have "\<forall>c \<in> set (padStart 2 CHR ''0'' (digits n)). isDecimalDigit c"
    using digits_decimal[OF assms] z by (auto simp: padStart_def)
  moreover have "padStart 2 CHR ''0'' (digits n) \<noteq> []"
    using digits_decimal[OF assms] by (simp add: padStart_def)
  ultimately have "parseInt (padStart 2 CHR ''0'' (digits n))
                     = num (decimal_value (padStart 2 CHR ''0'' (digits n)))"
    by (rule parseInt_decimal[rotated])
  then show ?thesis using digits_decimal[OF assms] by (simp add: padStart_def decimal_value_zeros)
qed

lemma padded_no_colon: "0 \<le> n \<Longrightarrow> CHR '':'' \<notin> set (padStart 2 CHR ''0'' (digits n))"
  using digits_decimal[of n] isDecimalDigit_facts(6) by (auto simp: padStart_def)

lemma hhmm_minutes_pair:
  assumes "CHR '':'' \<notin> set hs" "CHR '':'' \<notin> set ms"
  shows "hhmm_minutes (hs @ CHR '':'' # ms) = lift2 (+) (lift2 (*) (parseInt hs) (Num 60)) (parseInt ms)"
  using assms by (simp add: hhmm_minutes_def split_at_sep split_no_sep parseInt_at_def)

lemma num_in_range: "\<bar>n\<bar> \<le> 2 ^ 53 \<Longrightarrow> num n = Num n"
  by (simp add: num_def)

lemma num_eq_Num: "num n = Num r \<Longrightarrow> r = n \<and> \<bar>n\<bar> \<le> 2 ^ 53"
  by (simp add: num_def split: if_splits)

lemma lift2_Num: "lift2 f (Num x) (Num y) = num (f x y)"
  by (simp add: lift2_def)

text \<open>Printing a number of minutes from \<open>0\<close> to \<open>2^53\<close> as hours and minutes and reading
  the string back gives the number.\<close>

lemma hhmm_minutes_newEndTime:
  assumes "0 \<le> n" "n \<le> 2 ^ 53"
  shows "\<exists>e. newEndTime_of (Num n) = Some e \<and> hhmm_minutes e = Num n"
proof -
  let ?e = "padStart 2 CHR ''0'' (digits (n div 60)) @ CHR '':'' # padStart 2 CHR ''0'' (digits (n mod 60))"
  have d: "0 \<le> n div 60" and m: "0 \<le> n mod 60" using assms(1) by simp_all
  have dm: "n = n div 60 * 60 + n mod 60" by simp
  have t: "n div 60 * 60 \<le> n" using dm m by linarith
  have dn: "n div 60 \<le> n" using d t by linarith
  have mn: "n mod 60 \<le> n" using dm d by linarith
  have q: "toString (floor_div_60 (Num n)) = Some (digits (n div 60))"
    using d by (simp add: floor_div_60_def toString_def toString_int_def)
  have "js_rem_60 (Num n) = Num (n mod 60)"
    using assms(1) by (cases "n = 0") (simp_all add: js_rem_60_def)
  then have r: "toString (js_rem_60 (Num n)) = Some (digits (n mod 60))"
    using m by (simp add: toString_def toString_int_def)
  have e: "newEndTime_of (Num n) = Some ?e"
    unfolding newEndTime_of_def q r by simp
  have h: "parseInt (padStart 2 CHR ''0'' (digits (n div 60))) = Num (n div 60)"
    using d dn assms(2) by (simp add: parseInt_padded num_def)
  have mi: "parseInt (padStart 2 CHR ''0'' (digits (n mod 60))) = Num (n mod 60)"
    using m mn assms(2) by (simp add: parseInt_padded num_def)
  have "lift2 (*) (Num (n div 60)) (Num 60) = Num (n div 60 * 60)"
    using d t assms(2) by (simp add: lift2_Num num_def)
  moreover have "lift2 (+) (Num (n div 60 * 60)) (Num (n mod 60)) = Num n"
    using assms by (simp add: lift2_Num num_def)
  ultimately have "hhmm_minutes ?e = Num n"
    by (simp only: hhmm_minutes_pair[OF padded_no_colon[OF d] padded_no_colon[OF m]] h mi)
  with e show ?thesis by blast
qed

text \<open>An \<open>HH:mm\<close> string reads as a number of minutes from \<open>0\<close> to \<open>99 * 60 + 99\<close>.\<close>

lemma decimal_value_pair:
  assumes "isDecimalDigit a" "isDecimalDigit b"
  shows "0 \<le> decimal_value [a, b] \<and> decimal_value [a, b] \<le> 99"
  using isDecimalDigit_facts(7)[OF assms(1)] isDecimalDigit_facts(7)[OF assms(2)]
  by (simp add: decimal_value_def)

lemma hhmm_minutes_HHmm:
  assumes "is_HHmm s"
  shows "\<exists>k. hhmm_minutes s = Num k \<and> 0 \<le> k \<and> k \<le> 6039"
proof -
  from assms have len: "length s = 5" by (simp add: is_HHmm_def)
  then obtain a b x c d where s0: "s = [a, b, x, c, d]"
    by (auto simp: length_Suc_conv eval_nat_numeral)
  with assms have x: "x = CHR '':''" and
    dg: "isDecimalDigit a" "isDecimalDigit b" "isDecimalDigit c" "isDecimalDigit d"
    by (simp_all add: is_HHmm_def)
  have s: "s = [a, b] @ CHR '':'' # [c, d]" using s0 x by simp
  have hb: "0 \<le> decimal_value [a, b] \<and> decimal_value [a, b] \<le> 99"
    and mb: "0 \<le> decimal_value [c, d] \<and> decimal_value [c, d] \<le> 99"
    using dg decimal_value_pair by simp_all
  have h: "parseInt [a, b] = Num (decimal_value [a, b])"
  proof -
    have "parseInt [a, b] = num (decimal_value [a, b])"
      using dg by (intro parseInt_decimal) auto
    then show ?thesis using hb by (simp add: num_def)
  qed
  have m: "parseInt [c, d] = Num (decimal_value [c, d])"
  proof -
    have "parseInt [c, d] = num (decimal_value [c, d])"
      using dg by (intro parseInt_decimal) auto
    then show ?thesis using mb by (simp add: num_def)
  qed
  have nc: "CHR '':'' \<notin> set [a, b]" "CHR '':'' \<notin> set [c, d]"
    using dg isDecimalDigit_facts(6) by auto
  have "hhmm_minutes s = Num (decimal_value [a, b] * 60 + decimal_value [c, d])"
    unfolding s hhmm_minutes_pair[OF nc] h m using hb mb by (simp add: lift2_Num num_def)
  moreover have "0 \<le> decimal_value [a, b] * 60 + decimal_value [c, d]"
    "decimal_value [a, b] * 60 + decimal_value [c, d] \<le> 6039"
    using hb mb by simp_all
  ultimately show ?thesis by blast
qed

subsection \<open>Lists with distinct keys\<close>

lemma distinct_map_nth:
  assumes "distinct (map g xs)" "j < length xs" "k < length xs" "g (xs ! j) = g (xs ! k)"
  shows "j = k"
proof -
  have "map g xs ! j = map g xs ! k" using assms(2-4) by simp
  moreover have "j < length (map g xs)" "k < length (map g xs)" using assms(2,3) by simp_all
  ultimately show ?thesis using assms(1) nth_eq_iff_index_eq by blast
qed

lemma find_unique:
  assumes "distinct (map g xs)" "k < length xs" "g (xs ! k) = i"
  shows "List.find (\<lambda>x. g x = i) xs = Some (xs ! k)"
proof -
  have "\<not> g (xs ! j) = i" if "j < k" for j
  proof
    assume "g (xs ! j) = i"
    then have "j = k" using distinct_map_nth[OF assms(1), of j k] that assms(2,3) by simp
    then show False using that by simp
  qed
  then show ?thesis using assms(2,3) by (auto simp: find_Some_iff)
qed

lemma map_if_unique:
  assumes "distinct (map g xs)" "k < length xs" "g (xs ! k) = i"
  shows "map (\<lambda>x. if g x = i then f x else x) xs = xs[k := f (xs ! k)]"
proof (rule nth_equalityI)
  show "length (map (\<lambda>x. if g x = i then f x else x) xs) = length (xs[k := f (xs ! k)])" by simp
next
  fix j assume j: "j < length (map (\<lambda>x. if g x = i then f x else x) xs)"
  show "map (\<lambda>x. if g x = i then f x else x) xs ! j = xs[k := f (xs ! k)] ! j"
  proof (cases "j = k")
    case True
    then show ?thesis using assms(2,3) by simp
  next
    case False
    have "g (xs ! j) \<noteq> i"
    proof
      assume "g (xs ! j) = i"
      then have "j = k" using distinct_map_nth[OF assms(1), of j k] j assms(2,3) by simp
      then show False using False by simp
    qed
    then show ?thesis using j False by simp
  qed
qed


lemma timeSlots_labels:
  "timeSlots = [''08:00'', ''09:00'', ''10:00'', ''11:00'', ''12:00'', ''13:00'',
                ''14:00'', ''15:00'', ''16:00'', ''17:00'', ''18:00'', ''19:00'']"
  by code_simp

section \<open>Properties\<close>

subsection \<open>Validation of preferences\<close>

text \<open>
  C1 (as amended). Invalid constraints are caught by \<open>validateDoctorPreferences\<close>, a
  boolean check that runs no search: it returns false whenever \<open>maxPatientsPerDay\<close> is
  below 1 or \<open>defaultConsultationDuration\<close> is below 5 minutes, so in particular for
  every non-positive default duration. It raises nothing, and the suggestion entry
  point does not call it.
\<close>

theorem validateDoctorPreferences_rejects_invalid_constraints:
  "maxPatientsPerDay (constraints p) < 1 \<or> defaultConsultationDuration (constraints p) < 5
   \<Longrightarrow> \<not> validateDoctorPreferences p"
  by (auto simp: validateDoctorPreferences_def Let_def)

theorem validateDoctorPreferences_rejects_invalid_constraints_witness:
  "(maxPatientsPerDay (constraints zero_capacity_preferences) < 1
     \<or> defaultConsultationDuration (constraints zero_capacity_preferences) < 5)
   \<and> \<not> validateDoctorPreferences zero_capacity_preferences"
  using validateDoctorPreferences_rejects_invalid_constraints [of zero_capacity_preferences]
  by (simp add: zero_capacity_preferences_def getDefaultDoctorPreferences_def)

text \<open>
  The statement of C1 as written fails: with \<open>maxPatientsPerDay = 0\<close> the entry point
  \<open>generateAIScheduleSuggestions\<close> sends the request all the same and returns the
  suggestion the service answers with.
\<close>

theorem generateAIScheduleSuggestions_skips_validation:
  "maxPatientsPerDay (constraints zero_capacity_preferences) < 1
   \<and> generateAIScheduleSuggestions (answering_service [sample_suggestion]) zero_capacity_preferences [] []
       = [sample_suggestion]"
  by (simp add: zero_capacity_preferences_def getDefaultDoctorPreferences_def
      generateAIScheduleSuggestions_def generateAIScheduleSuggestions_try_def answering_service_def)

text \<open>
  C9. The shipped default preferences are valid: for every non-empty \<open>doctorId\<close>,
  \<open>validateDoctorPreferences (getDefaultDoctorPreferences doctorId)\<close> returns true.
\<close>

theorem default_preferences_valid:
  "d \<noteq> [] \<Longrightarrow> validateDoctorPreferences (getDefaultDoctorPreferences d)"
  by (simp add: validateDoctorPreferences_def getDefaultDoctorPreferences_def
      workingHours_values_def)

theorem default_preferences_valid_witness:
  "''demo-doctor-1'' \<noteq> [] \<and> validateDoctorPreferences (getDefaultDoctorPreferences ''demo-doctor-1'')"
  using default_preferences_valid [of "''demo-doctor-1''"] by simp

subsection \<open>The remote entry points\<close>

text \<open>
  C2 (as amended). \<open>detectScheduleConflicts\<close> validates no record: the request body
  carries the whole batch, malformed records included, unchanged; the result is all or
  nothing, the conflict list of the service when the response is ok and its body
  parses, and the empty list in every other case. Nothing is raised and no skipped ids
  are reported.
\<close>

theorem detectScheduleConflicts_all_or_nothing:
  "body (detectConflicts_request w d as p) = DetectConflictsBody d as p
   \<and> detectScheduleConflicts w d as p =
       (case fetch w (detectConflicts_request w d as p) of
          Rejected e \<Rightarrow> []
        | Resolved response \<Rightarrow>
            (if ok response then (case json response of Inl e \<Rightarrow> [] | Inr cs \<Rightarrow> cs) else []))"
  by (simp add: detectScheduleConflicts_def detectScheduleConflicts_try_def detectConflicts_request_def
      split: fetch_outcome.splits sum.splits)

text \<open>
  The statement of C2 as written fails: a batch of one malformed record (end before
  start) and two overlapping valid appointments, sent to a service that answers with an
  error status, yields no conflict at all.
\<close>

theorem detectScheduleConflicts_bad_batch_yields_nothing:
  "detectScheduleConflicts rejecting_service ''d1'' [malformed, ap1, ap2] (getDefaultDoctorPreferences ''d1'') = []"
  by (simp add: detectScheduleConflicts_def detectScheduleConflicts_try_def rejecting_service_def)

text \<open>
  C3 (as amended). The two entry points are determined by the response of the remote
  service to their one request, not by the snapshot alone: two invocations return
  identical results whenever \<open>fetch\<close> gives them identical outcomes, whatever their
  arguments.
\<close>

theorem entry_points_determined_by_response:
  "(fetch w (detectConflicts_request w d a p) = fetch w' (detectConflicts_request w' d' a' p')
      \<longrightarrow> detectScheduleConflicts w d a p = detectScheduleConflicts w' d' a' p')
   \<and> (fetch v (generateSuggestions_request v q b pp) = fetch v' (generateSuggestions_request v' q' b' pp')
      \<longrightarrow> generateAIScheduleSuggestions v q b pp = generateAIScheduleSuggestions v' q' b' pp')"
  by (simp add: detectScheduleConflicts_def detectScheduleConflicts_try_def
      generateAIScheduleSuggestions_def generateAIScheduleSuggestions_try_def)

theorem entry_points_determined_by_response_witness:
  "detectScheduleConflicts (answering_service [sample_conflict]) ''d1'' [ap1, ap2] (getDefaultDoctorPreferences ''d1'')
     = detectScheduleConflicts (answering_service [sample_conflict]) ''d2'' [] (getDefaultDoctorPreferences ''d2'')
   \<and> generateAIScheduleSuggestions (unreachable_service) (getDefaultDoctorPreferences ''d1'') [ap1, ap2] []
     = generateAIScheduleSuggestions (unreachable_service) (getDefaultDoctorPreferences ''d1'') [] []"
proof -
  let ?w = "answering_service [sample_conflict]"
  let ?v = "unreachable_service :: AIScheduleSuggestion list platform"
  have 1: "fetch ?w (detectConflicts_request ?w ''d1'' [ap1, ap2] (getDefaultDoctorPreferences ''d1''))
         = fetch ?w (detectConflicts_request ?w ''d2'' [] (getDefaultDoctorPreferences ''d2''))"
    by (simp add: answering_service_def)
  have 2: "fetch ?v (generateSuggestions_request ?v (getDefaultDoctorPreferences ''d1'') [ap1, ap2] [])
         = fetch ?v (generateSuggestions_request ?v (getDefaultDoctorPreferences ''d1'') [] [])"
    by (simp add: unreachable_service_def)
  show ?thesis
    using entry_points_determined_by_response[of ?w "''d1''" "[ap1, ap2]" "getDefaultDoctorPreferences ''d1''"
                    ?w "''d2''" "[]" "getDefaultDoctorPreferences ''d2''"
                    ?v "getDefaultDoctorPreferences ''d1''" "[ap1, ap2]" "[]"
                    ?v "getDefaultDoctorPreferences ''d1''" "[]" "[]"] 1 2
    by blast
qed

text \<open>
  The statement of C3 as written fails: the same arguments give different results when
  the service answers and when it cannot be reached.
\<close>

theorem entry_points_depend_on_service:
  "detectScheduleConflicts (answering_service [sample_conflict]) ''d1'' [ap1, ap2] (getDefaultDoctorPreferences ''d1'')
     \<noteq> detectScheduleConflicts unreachable_service ''d1'' [ap1, ap2] (getDefaultDoctorPreferences ''d1'')
   \<and> generateAIScheduleSuggestions (answering_service [sample_suggestion]) (getDefaultDoctorPreferences ''d1'') [ap1, ap2] []
     \<noteq> generateAIScheduleSuggestions unreachable_service (getDefaultDoctorPreferences ''d1'') [ap1, ap2] []"
  by (simp add: detectScheduleConflicts_def detectScheduleConflicts_try_def
      generateAIScheduleSuggestions_def generateAIScheduleSuggestions_try_def
      answering_service_def unreachable_service_def)

text \<open>
  C4 (as amended). \<open>generateAIScheduleSuggestions\<close> never raises: it returns the empty
  list whenever the service cannot be reached, answers with an error status or sends a
  body that does not parse, and otherwise exactly the list the service sent, which is
  empty when the service proposes nothing. It does not examine the horizon itself.
\<close>

theorem generateAIScheduleSuggestions_empty_on_failure:
  "((\<forall>ss. fetch w (generateSuggestions_request w p a pp) \<noteq> Resolved (Response True (Inr ss)))
      \<longrightarrow> generateAIScheduleSuggestions w p a pp = [])
   \<and> (fetch w (generateSuggestions_request w p a pp) = Resolved (Response True (Inr ss))
      \<longrightarrow> generateAIScheduleSuggestions w p a pp = ss)"
proof -
  have "generateAIScheduleSuggestions w p a pp = []"
    if none: "\<forall>ss. fetch w (generateSuggestions_request w p a pp) \<noteq> Resolved (Response True (Inr ss))"
  proof (cases "fetch w (generateSuggestions_request w p a pp)")
    case (Rejected e)
    then show ?thesis
      by (simp add: generateAIScheduleSuggestions_def generateAIScheduleSuggestions_try_def)
  next
    case (Resolved r)
    obtain b j where r: "r = Response b j" by (cases r)
    show ?thesis
    proof (cases "b")
      case False
      then show ?thesis using Resolved r
        by (simp add: generateAIScheduleSuggestions_def generateAIScheduleSuggestions_try_def)
    next
      case True
      then obtain e where "j = Inl e" using none Resolved r by (cases j) auto
      then show ?thesis using Resolved r True
        by (simp add: generateAIScheduleSuggestions_def generateAIScheduleSuggestions_try_def)
    qed
  qed
  moreover have "generateAIScheduleSuggestions w p a pp = ss"
    if "fetch w (generateSuggestions_request w p a pp) = Resolved (Response True (Inr ss))"
    using that by (simp add: generateAIScheduleSuggestions_def generateAIScheduleSuggestions_try_def)
  ultimately show ?thesis by blast
qed

theorem generateAIScheduleSuggestions_empty_on_failure_witness:
  "generateAIScheduleSuggestions unreachable_service single_slot_preferences [booked] [] = []
   \<and> generateAIScheduleSuggestions (answering_service []) single_slot_preferences [booked] [] = []"
proof -
  let ?u = "unreachable_service :: AIScheduleSuggestion list platform"
  let ?v = "answering_service ([] :: AIScheduleSuggestion list)"
  have 1: "\<forall>ss. fetch ?u (generateSuggestions_request ?u single_slot_preferences [booked] [])
              \<noteq> Resolved (Response True (Inr ss))"
    by (simp add: unreachable_service_def)
  have 2: "fetch ?v (generateSuggestions_request ?v single_slot_preferences [booked] [])
              = Resolved (Response True (Inr []))"
    by (simp add: answering_service_def)
  show ?thesis
    using generateAIScheduleSuggestions_empty_on_failure[of ?u single_slot_preferences "[booked]" "[]" "[]"]
          generateAIScheduleSuggestions_empty_on_failure[of ?v single_slot_preferences "[booked]" "[]" "[]"] 1 2
    by blast
qed

text \<open>
  The statement of C4 as written fails on a fully booked horizon:
  \<open>getOptimalAppointmentTime\<close> raises when the service answers with an error status, and
  \<open>generateAIScheduleSuggestions\<close> returns whatever the service proposes.
\<close>

theorem fully_booked_horizon_not_empty_result:
  "getOptimalAppointmentTime rejecting_service ''p4'' normal single_slot_preferences [booked]
     = Inl (Error ''Optimal time calculation failed'')
   \<and> generateAIScheduleSuggestions (answering_service [sample_suggestion]) single_slot_preferences [booked] []
     = [sample_suggestion]"
  by (simp add: getOptimalAppointmentTime_def rejecting_service_def
      generateAIScheduleSuggestions_def generateAIScheduleSuggestions_try_def answering_service_def)

subsection \<open>Overlap and the conflict trigger\<close>

text \<open>
  C5. Half-open overlap: \<open>overlaps a b\<close> holds if and only if \<open>a\<close> starts before \<open>b\<close>
  ends and \<open>b\<close> starts before \<open>a\<close> ends; hence \<open>overlaps\<close> is symmetric, and touching
  windows (the end of \<open>a\<close> is the start of \<open>b\<close>) do not overlap.
\<close>

theorem overlaps_half_open:
  "(overlaps a b \<longleftrightarrow> start_time a < end_time b \<and> start_time b < end_time a)
   \<and> overlaps a b = overlaps b a
   \<and> (end_time a = start_time b \<longrightarrow> \<not> overlaps a b)"
  by (auto simp: overlaps_def)

theorem overlaps_half_open_witness:
  "end_time \<lparr>start_time = 540, end_time = 570\<rparr> = start_time \<lparr>start_time = 570, end_time = 600\<rparr>
   \<and> \<not> overlaps \<lparr>start_time = 540, end_time = 570\<rparr> \<lparr>start_time = 570, end_time = 600\<rparr>
   \<and> overlaps \<lparr>start_time = 570, end_time = 600\<rparr> \<lparr>start_time = 540, end_time = 570\<rparr>
       = overlaps \<lparr>start_time = 540, end_time = 570\<rparr> \<lparr>start_time = 570, end_time = 600\<rparr>"
  using overlaps_half_open [of "\<lparr>start_time = 540, end_time = 570\<rparr>" "\<lparr>start_time = 570, end_time = 600\<rparr>"]
  by auto




subsection \<open>Rescheduling by drop\<close>

text \<open>
  C8 (as amended). Take an appointment list with pairwise distinct ids, the appointment
  at index \<open>k\<close> with id \<open>i\<close>, and a drop of \<open>i\<close> onto a date \<open>d\<close> and a start time \<open>t\<close>.
  If the start time and the end time of the appointment and \<open>t\<close> are \<open>HH:mm\<close>
  strings, with \<open>dur\<close> the duration of the appointment and \<open>m\<close> the minutes of \<open>t\<close>,
  and the new end \<open>m + dur\<close> is not negative (so whenever the end time is not before
  the start time), then the resulting list is the old one with the entry at \<open>k\<close>
  replaced: its date and start time are the drop target, its end time minus its start
  time is the original duration, and every other appointment is unchanged.
\<close>

theorem handleAppointmentDrop_frame_duration:
  assumes "distinct (map apt_id appts)"
    and "k < length appts" and "apt_id (appts ! k) = i"
    and "is_HHmm (startTime (appts ! k))" and "is_HHmm (endTime (appts ! k))" and "is_HHmm t"
    and "duration_minutes (appts ! k) = Num dur"
    and "hhmm_minutes t = Num m"
    and "0 \<le> m + dur"
  shows "\<exists>e. handleAppointmentDrop appts i d t
               = Some (appts[k := (appts ! k)\<lparr> date := d, startTime := t, endTime := e \<rparr>])
            \<and> duration_minutes ((appts ! k)\<lparr> date := d, startTime := t, endTime := e \<rparr>) = Num dur"
proof -
  obtain s0 where s0: "hhmm_minutes (startTime (appts ! k)) = Num s0" "0 \<le> s0" "s0 \<le> 6039"
    using hhmm_minutes_HHmm[OF assms(4)] by blast
  obtain e0 where e0: "hhmm_minutes (endTime (appts ! k)) = Num e0" "0 \<le> e0" "e0 \<le> 6039"
    using hhmm_minutes_HHmm[OF assms(5)] by blast
  obtain m0 where m0: "hhmm_minutes t = Num m0" "0 \<le> m0" "m0 \<le> 6039"
    using hhmm_minutes_HHmm[OF assms(6)] by blast
  have m: "m = m0" using m0(1) assms(8) by simp
  have "duration_minutes (appts ! k) = num (e0 - s0)"
    by (simp add: duration_minutes_def s0(1) e0(1) lift2_Num)
  then have dur: "dur = e0 - s0" using assms(7) num_eq_Num by metis
  have range: "m + dur \<le> 2 ^ 53" "\<bar>dur\<bar> \<le> 2 ^ 53"
    using m dur s0(2,3) e0(2,3) m0(2,3) by simp_all
  have sum: "lift2 (+) (hhmm_minutes t) (duration_minutes (appts ! k)) = Num (m + dur)"
    using assms(7-9) range(1) by (simp add: lift2_Num num_def)
  obtain e where e: "newEndTime_of (Num (m + dur)) = Some e" "hhmm_minutes e = Num (m + dur)"
    using hhmm_minutes_newEndTime[OF assms(9) range(1)] by blast
  let ?a = "(appts ! k)\<lparr> date := d, startTime := t, endTime := e \<rparr>"
  have f: "List.find (\<lambda>apt. apt_id apt = i) appts = Some (appts ! k)"
    using assms(1-3) by (rule find_unique)
  have "handleAppointmentDrop appts i d t
          = Some (map (\<lambda>apt. if apt_id apt = i then apt\<lparr> date := d, startTime := t, endTime := e \<rparr> else apt) appts)"
    by (simp add: handleAppointmentDrop_def f sum e(1))
  also have "map (\<lambda>apt. if apt_id apt = i then apt\<lparr> date := d, startTime := t, endTime := e \<rparr> else apt) appts
               = appts[k := ?a]"
    using assms(1-3) by (rule map_if_unique)
  finally have 1: "handleAppointmentDrop appts i d t = Some (appts[k := ?a])" .
  have "duration_minutes ?a = num (m + dur - m)"
    by (simp add: duration_minutes_def e(2) assms(8) lift2_Num)
  then have "duration_minutes ?a = Num dur" using range(2) by (simp add: num_def)
  with 1 show ?thesis by blast
qed

theorem handleAppointmentDrop_frame_duration_witness:
  "\<exists>e. handleAppointmentDrop [ap1, ap2] ''a1'' ''2025-01-07'' ''14:00''
         = Some [ap1\<lparr> date := ''2025-01-07'', startTime := ''14:00'', endTime := e \<rparr>, ap2]
       \<and> duration_minutes (ap1\<lparr> date := ''2025-01-07'', startTime := ''14:00'', endTime := e \<rparr>) = Num 30"
proof -
  have 1: "distinct (map apt_id [ap1, ap2])" by (simp add: ap1_def ap2_def)
  have 2: "(0::nat) < length [ap1, ap2]" by simp
  have 3: "apt_id ([ap1, ap2] ! 0) = ''a1''" by (simp add: ap1_def)
  have 4: "is_HHmm (startTime ([ap1, ap2] ! 0))" by code_simp
  have 5: "is_HHmm (endTime ([ap1, ap2] ! 0))" by code_simp
  have 6: "is_HHmm ''14:00''" by code_simp
  have 7: "duration_minutes ([ap1, ap2] ! 0) = Num 30" by code_simp
  have 8: "hhmm_minutes ''14:00'' = Num 840" by code_simp
  have 9: "(0::int) \<le> 840 + 30" by simp
  show ?thesis
    using handleAppointmentDrop_frame_duration[OF 1 2 3 4 5 6 7 8 9, of "''2025-01-07''"] by simp
qed

text \<open>
  The statement of C8 as written fails in two ways. An appointment from 23:00 to 01:00
  has a duration of \<open>-1320\<close> minutes; dropped onto 09:30 its end time becomes the string
  \<open>-13:-30\<close>, which is \<open>-1380\<close> minutes after the new start. And when two appointments
  carry the same id, both are moved and both get the duration of the first: the second
  one, of 60 minutes, ends up with 30.
\<close>

theorem handleAppointmentDrop_duration_lost:
  "duration_minutes overnight = Num (- 1320)
   \<and> handleAppointmentDrop [overnight] ''a3'' ''2025-01-07'' ''09:30''
       = Some [overnight\<lparr> date := ''2025-01-07'', startTime := ''09:30'', endTime := ''-13:-30'' \<rparr>]
   \<and> duration_minutes (overnight\<lparr> date := ''2025-01-07'', startTime := ''09:30'', endTime := ''-13:-30'' \<rparr>)
       = Num (- 1380)
   \<and> duration_minutes ap1_twin = Num 60
   \<and> handleAppointmentDrop [ap1, ap1_twin] ''a1'' ''2025-01-07'' ''14:00''
       = Some [ap1\<lparr> date := ''2025-01-07'', startTime := ''14:00'', endTime := ''14:30'' \<rparr>,
               ap1_twin\<lparr> date := ''2025-01-07'', startTime := ''14:00'', endTime := ''14:30'' \<rparr>]"
  by code_simp

subsection \<open>The day view\<close>

text \<open>
  C10. Half-open membership in the day view: an appointment of the displayed day is
  drawn in the row of slot label \<open>time\<close> if and only if \<open>startTime \<le> time\<close> and
  \<open>time < endTime\<close> as strings; an appointment whose end time equals the label is not
  drawn in that row.
\<close>

theorem renderDayView_half_open:
  "(time, apts) \<in> set (renderDayView appointments' dateStr) \<Longrightarrow>
   apt \<in> set (filterAppointmentsByDate appointments' dateStr) \<Longrightarrow>
   (apt \<in> set apts \<longleftrightarrow> startTime apt \<le> time \<and> time < endTime apt)
   \<and> (endTime apt = time \<longrightarrow> apt \<notin> set apts)"
  by (auto simp: renderDayView_def aptsAtTime_def Let_def)

theorem renderDayView_half_open_witness:
  "(''09:00'', [ap1]) \<in> set (renderDayView [early, ap1] ''2025-01-06'')
   \<and> early \<in> set (filterAppointmentsByDate [early, ap1] ''2025-01-06'')
   \<and> endTime early = ''09:00'' \<and> early \<notin> set [ap1]"
proof -
  have 1: "(''09:00'', [ap1]) \<in> set (renderDayView [early, ap1] ''2025-01-06'')" by code_simp
  have 2: "early \<in> set (filterAppointmentsByDate [early, ap1] ''2025-01-06'')" by code_simp
  have 3: "endTime early = ''09:00''" by (simp add: early_def)
  show ?thesis using renderDayView_half_open[OF 1 2] 1 2 3 by blast
qed

end
